theory Spec2Isabelle
  imports Complex_Main "HOL-Library.Word"
begin

section \<open>Go strings: \<open>strings.TrimSpace\<close>\<close>

text \<open>
  A Go string is a sequence of bytes, here a \<open>string\<close> (a list of 8-bit characters).
  \<open>strings.TrimSpace\<close> removes every leading and every trailing white-space rune, where
  white space is what \<open>unicode.IsSpace\<close> accepts. \<open>space_runes\<close> lists the UTF-8
  encodings of these runes: the six ASCII ones, U+0085, U+00A0, U+1680, U+2000 to U+200A,
  U+2028, U+2029, U+202F, U+205F and U+3000.
\<close>

definition space_runes :: "string list" where
  "space_runes =
     [[CHR 0x09], [CHR 0x0A], [CHR 0x0B], [CHR 0x0C], [CHR 0x0D], [CHR 0x20],
      [CHR 0xC2, CHR 0x85], [CHR 0xC2, CHR 0xA0],
      [CHR 0xE1, CHR 0x9A, CHR 0x80],
      [CHR 0xE2, CHR 0x80, CHR 0x80], [CHR 0xE2, CHR 0x80, CHR 0x81],
      [CHR 0xE2, CHR 0x80, CHR 0x82], [CHR 0xE2, CHR 0x80, CHR 0x83],
      [CHR 0xE2, CHR 0x80, CHR 0x84], [CHR 0xE2, CHR 0x80, CHR 0x85],
      [CHR 0xE2, CHR 0x80, CHR 0x86], [CHR 0xE2, CHR 0x80, CHR 0x87],
      [CHR 0xE2, CHR 0x80, CHR 0x88], [CHR 0xE2, CHR 0x80, CHR 0x89],
      [CHR 0xE2, CHR 0x80, CHR 0x8A],
      [CHR 0xE2, CHR 0x80, CHR 0xA8], [CHR 0xE2, CHR 0x80, CHR 0xA9],
      [CHR 0xE2, CHR 0x80, CHR 0xAF], [CHR 0xE2, CHR 0x81, CHR 0x9F],
      [CHR 0xE3, CHR 0x80, CHR 0x80]]"

text \<open>The number of bytes of the white-space rune a string starts with, 0 when it starts
  with none.\<close>

definition space_prefix_len :: "string \<Rightarrow> nat" where
  "space_prefix_len s =
     (case List.find (\<lambda>r. take (length r) s = r) space_runes of
        None \<Rightarrow> 0
      | Some r \<Rightarrow> length r)"

function TrimLeft :: "string \<Rightarrow> string" where
  "TrimLeft s =
     (if s = [] \<or> space_prefix_len s = 0 then s
      else TrimLeft (drop (space_prefix_len s) s))"
  by pat_completeness auto
termination
  by (relation "measure length") auto

text \<open>A trailing rune is a leading rune of the reversed string, its bytes reversed.\<close>

definition space_suffix_len :: "string \<Rightarrow> nat" where
  "space_suffix_len s =
     (case List.find (\<lambda>r. take (length r) (rev s) = rev r) space_runes of
        None \<Rightarrow> 0
      | Some r \<Rightarrow> length r)"

function TrimRight :: "string \<Rightarrow> string" where
  "TrimRight s =
     (if s = [] \<or> space_suffix_len s = 0 then s
      else TrimRight (take (length s - space_suffix_len s) s))"
  by pat_completeness auto
termination
  by (relation "measure length") auto

definition TrimSpace :: "string \<Rightarrow> string" where
  "TrimSpace s = TrimRight (TrimLeft s)"

section \<open>Dynamic values (\<open>interface{}\<close>)\<close>

text \<open>
  A \<open>float32\<close> or \<open>float64\<close>: a finite value is a rational number, and there are the two
  infinities and NaN.
\<close>

datatype gofloat = Finite rat | PosInf | NegInf | NaN

text \<open>
  The values held by an \<open>interface{}\<close> that the validator tells apart: \<open>nil\<close>, a string,
  a bool, a float, a signed or unsigned integer of any width, a \<open>json.Number\<close> (a string),
  a \<open>map[string]interface{}\<close>, a \<open>[]interface{}\<close>, a \<open>*JSONSchema\<close> (only the \<open>Type\<close>
  field of the schema it points to is read; \<open>None\<close> is the nil pointer), and a value of
  any other type. A Go map is an association list: its order is the order in which
  \<open>range\<close> happens to visit it, and a lookup is \<open>map_of\<close>.
\<close>

datatype jvalue =
    VNil
  | VString string
  | VBool bool
  | VFloat gofloat
  | VInt int
  | VUint nat
  | VNumber string
  | VMap "(string \<times> jvalue) list"
  | VArray "jvalue list"
  | VSchemaPtr "string option"
  | VOther

text \<open>\<open>params map[string]interface{}\<close>; \<open>None\<close> is the nil map.\<close>

type_synonym params = "(string \<times> jvalue) list option"

record JSONSchema =
  Type :: string
  Properties :: "(string \<times> jvalue) list"
  Required :: "string list"

section \<open>The tool package: errors, validator, registry\<close>

datatype tool_error =
    ErrToolIsNil
  | ErrToolNameEmpty
  | ErrToolAlreadyRegistered string
  | ErrToolNotFound string
  | ErrMissingRequiredField string
  | ErrUnsupportedSchemaType string
  | ErrExpectedButGot string jvalue
  | ErrField string tool_error
  | ErrValidationFailed string tool_error
  | ErrToolFailure string
  | PanicNilDereference

text \<open>
  \<open>json.Number.Float64\<close> and \<open>json.Number.Int64\<close> call \<open>strconv.ParseFloat\<close> and
  \<open>strconv.ParseInt\<close> of Go's standard library. Whether they accept a literal is taken
  as a parameter.
\<close>

record strconv =
  ParseFloatOk :: "string \<Rightarrow> bool"
  ParseIntOk :: "string \<Rightarrow> bool"

text \<open>\<open>math.Trunc(v) == v\<close>: true of the integral finite values and of both infinities,
  false of NaN, which equals nothing.\<close>

definition trunc_rat :: "rat \<Rightarrow> rat" where
  "trunc_rat q = (if 0 \<le> q then of_int \<lfloor>q\<rfloor> else of_int \<lceil>q\<rceil>)"

fun truncEq :: "gofloat \<Rightarrow> bool" where
  "truncEq (Finite q) = (trunc_rat q = q)"
| "truncEq PosInf = True"
| "truncEq NegInf = True"
| "truncEq NaN = False"

fun isNumber :: "strconv \<Rightarrow> jvalue \<Rightarrow> bool" where
  "isNumber sc (VFloat f) = True"
| "isNumber sc (VInt i) = True"
| "isNumber sc (VUint n) = True"
| "isNumber sc (VNumber s) = ParseFloatOk sc s"
| "isNumber sc v = False"

fun isInteger :: "strconv \<Rightarrow> jvalue \<Rightarrow> bool" where
  "isInteger sc (VInt i) = True"
| "isInteger sc (VUint n) = True"
| "isInteger sc (VFloat f) = truncEq f"
| "isInteger sc (VNumber s) = ParseIntOk sc s"
| "isInteger sc v = False"

fun isString :: "jvalue \<Rightarrow> bool" where
  "isString (VString s) = True"
| "isString v = False"

fun isBool :: "jvalue \<Rightarrow> bool" where
  "isBool (VBool b) = True"
| "isBool v = False"

fun isMap :: "jvalue \<Rightarrow> bool" where
  "isMap (VMap m) = True"
| "isMap v = False"

fun isArray :: "jvalue \<Rightarrow> bool" where
  "isArray (VArray xs) = True"
| "isArray v = False"

text \<open>\<open>validateType\<close>: \<open>None\<close> is the nil error. In the \<open>object\<close> case a nil value breaks
  out of the switch, to the final "expected ... but got ..." error.\<close>

definition validateType :: "strconv \<Rightarrow> jvalue \<Rightarrow> string \<Rightarrow> tool_error option" where
  "validateType sc v expected =
     (if expected = ''string'' then
        (if isString v then None else Some (ErrExpectedButGot expected v))
      else if expected = ''number'' then
        (if isNumber sc v then None else Some (ErrExpectedButGot expected v))
      else if expected = ''integer'' then
        (if isInteger sc v then None else Some (ErrExpectedButGot expected v))
      else if expected = ''boolean'' then
        (if isBool v then None else Some (ErrExpectedButGot expected v))
      else if expected = ''object'' then
        (if v = VNil then Some (ErrExpectedButGot expected v)
         else if isMap v then None else Some (ErrExpectedButGot expected v))
      else if expected = ''array'' then
        (if isArray v then None else Some (ErrExpectedButGot expected v))
      else if expected = ''null'' then
        (if v = VNil then None else Some (ErrExpectedButGot expected v))
      else Some (ErrUnsupportedSchemaType expected))"

text \<open>\<open>extractExpectedType\<close>: the \<open>type\<close> entry of a map when it is a string, the \<open>Type\<close>
  field behind a \<open>*JSONSchema\<close> (a nil pointer panics there), the empty string
  otherwise.\<close>

fun extractExpectedType :: "jvalue \<Rightarrow> tool_error + string" where
  "extractExpectedType (VMap def) =
     (case map_of def ''type'' of
        Some (VString s) \<Rightarrow> Inr s
      | _ \<Rightarrow> Inr '''')"
| "extractExpectedType (VSchemaPtr None) = Inl PanicNilDereference"
| "extractExpectedType (VSchemaPtr (Some t)) = Inr t"
| "extractExpectedType v = Inr ''''"

text \<open>The \<open>range params\<close> loop of \<open>Validate\<close>, over the entries in the order visited.\<close>

fun validateProps ::
  "strconv \<Rightarrow> (string \<times> jvalue) list \<Rightarrow> (string \<times> jvalue) list \<Rightarrow> tool_error option" where
  "validateProps sc props [] = None"
| "validateProps sc props ((key, v) # rest) =
     (case map_of props key of
        None \<Rightarrow> validateProps sc props rest
      | Some propDef \<Rightarrow>
          (case extractExpectedType propDef of
             Inl p \<Rightarrow> Some p
           | Inr expectedType \<Rightarrow>
               if expectedType = '''' then validateProps sc props rest
               else (case validateType sc v expectedType of
                       Some e \<Rightarrow> Some (ErrField key e)
                     | None \<Rightarrow> validateProps sc props rest)))"

text \<open>The loop over \<open>schema.Required\<close>.\<close>

fun checkRequired :: "(string \<times> jvalue) list \<Rightarrow> string list \<Rightarrow> tool_error option" where
  "checkRequired ps [] = None"
| "checkRequired ps (field # rest) =
     (if map_of ps field = None then Some (ErrMissingRequiredField field)
      else checkRequired ps rest)"

text \<open>The entries of \<open>params\<close>; a nil map has none (\<open>Validate\<close> replaces it by an
  empty one).\<close>

definition paramEntries :: "params \<Rightarrow> (string \<times> jvalue) list" where
  "paramEntries ps = (case ps of None \<Rightarrow> [] | Some m \<Rightarrow> m)"

text \<open>\<open>DefaultValidator.Validate\<close>.\<close>

definition Validate :: "strconv \<Rightarrow> params \<Rightarrow> JSONSchema option \<Rightarrow> tool_error option" where
  "Validate sc ps schema =
     (case schema of
        None \<Rightarrow> None
      | Some sch \<Rightarrow>
          (let ps' = paramEntries ps in
           case checkRequired ps' (Required sch) of
             Some e \<Rightarrow> Some e
           | None \<Rightarrow>
               if length (Properties sch) = 0 then None
               else validateProps sc (Properties sch) ps'))"

text \<open>
  \<open>ToolResult\<close>, and a \<open>Tool\<close>: its \<open>Name()\<close>, its \<open>Schema()\<close> (a \<open>*JSONSchema\<close>,
  \<open>None\<close> for nil) and its \<open>Execute\<close> body. The body may do anything; what it does is a
  transformer of a world \<open>'w\<close>, returning Go's pair of a \<open>*ToolResult\<close> and an error.
\<close>

record ToolResult =
  Success :: bool
  Output :: string
  Data :: jvalue
  Error :: "tool_error option"

type_synonym exec_result = "ToolResult option \<times> tool_error option"

record 'w Tool =
  Name :: string
  Schema :: "JSONSchema option"
  ToolExecute :: "params \<Rightarrow> 'w \<Rightarrow> exec_result \<times> 'w"

text \<open>A \<open>Validator\<close> is any implementation of \<open>Validate(params, schema) error\<close>.\<close>

type_synonym Validator = "params \<Rightarrow> JSONSchema option \<Rightarrow> tool_error option"

text \<open>The \<open>Registry\<close>: the tools by name and the validator (\<open>None\<close> is a nil validator).
  The \<open>mcpClient\<close> field is read by none of the functions below and is left out.\<close>

record 'w Registry =
  tools :: "string \<rightharpoonup> 'w Tool"
  validator :: "Validator option"

definition NewRegistry :: "strconv \<Rightarrow> 'w Registry" where
  "NewRegistry sc = \<lparr>tools = Map.empty, validator = Some (Validate sc)\<rparr>"

text \<open>\<open>Register\<close>: the registry after the call and the error returned (\<open>None\<close> is nil).
  The argument is an interface value, \<open>None\<close> when it is nil.\<close>

definition Register :: "'w Registry \<Rightarrow> 'w Tool option \<Rightarrow> 'w Registry \<times> tool_error option" where
  "Register r tool =
     (case tool of
        None \<Rightarrow> (r, Some ErrToolIsNil)
      | Some t \<Rightarrow>
          (let name = Name t in
           if name = '''' then (r, Some ErrToolNameEmpty)
           else if tools r name \<noteq> None then (r, Some (ErrToolAlreadyRegistered name))
           else (r\<lparr>tools := (tools r)(name \<mapsto> t)\<rparr>, None)))"

definition Get :: "'w Registry \<Rightarrow> string \<Rightarrow> tool_error + 'w Tool" where
  "Get r name =
     (case tools r name of
        None \<Rightarrow> Inl (ErrToolNotFound name)
      | Some t \<Rightarrow> Inr t)"

definition SetValidator :: "'w Registry \<Rightarrow> Validator option \<Rightarrow> 'w Registry" where
  "SetValidator r v = r\<lparr>validator := v\<rparr>"

text \<open>
  \<open>Execute\<close>: the returned pair and the world after the call. The validation error is
  wrapped as "tool NAME validation failed"; a panic of the validator is not an error
  value and passes unwrapped.
\<close>

definition Execute ::
  "'w Registry \<Rightarrow> string \<Rightarrow> params \<Rightarrow> 'w \<Rightarrow> exec_result \<times> 'w" where
  "Execute r name ps w =
     (case Get r name of
        Inl err \<Rightarrow> ((None, Some err), w)
      | Inr tool \<Rightarrow>
          (case Schema tool of
             None \<Rightarrow> ToolExecute tool ps w
           | Some schema \<Rightarrow>
               (case validator r of
                  None \<Rightarrow> ToolExecute tool ps w
                | Some v \<Rightarrow>
                    (case v ps (Some schema) of
                       None \<Rightarrow> ToolExecute tool ps w
                     | Some PanicNilDereference \<Rightarrow> ((None, Some PanicNilDereference), w)
                     | Some err \<Rightarrow> ((None, Some (ErrValidationFailed name err)), w)))))"

subsection \<open>An example registry\<close>

text \<open>
  The examples use no \<open>json.Number\<close>, so any \<open>strconv\<close> will do. The world of the example
  tools is the number of tool bodies that have run. \<open>echo\<close> declares a required string
  property \<open>text\<close>; \<open>plain\<close> has no schema.
\<close>

definition example_strconv :: strconv where
  "example_strconv = \<lparr>ParseFloatOk = (\<lambda>s. False), ParseIntOk = (\<lambda>s. False)\<rparr>"

definition echo_schema :: JSONSchema where
  "echo_schema =
     \<lparr>Type = ''object'',
      Properties = [(''text'', VMap [(''type'', VString ''string'')])],
      Required = [''text'']\<rparr>"

definition counting_body :: "params \<Rightarrow> nat \<Rightarrow> exec_result \<times> nat" where
  "counting_body ps w =
     ((Some \<lparr>Success = True, Output = ''ok'', Data = VNil, Error = None\<rparr>, None), Suc w)"

definition echo_tool :: "nat Tool" where
  "echo_tool = \<lparr>Name = ''echo'', Schema = Some echo_schema, ToolExecute = counting_body\<rparr>"

definition plain_tool :: "nat Tool" where
  "plain_tool = \<lparr>Name = ''plain'', Schema = None, ToolExecute = counting_body\<rparr>"

definition example_registry :: "nat Registry" where
  "example_registry =
     fst (Register (fst (Register (NewRegistry example_strconv) (Some echo_tool)))
            (Some plain_tool))"

section \<open>The session package: \<open>MemorySession\<close>\<close>

text \<open>
  A \<open>time.Time\<close> is an instant: the nanoseconds since the zero time, so that \<open>IsZero\<close> is
  \<open>t = 0\<close>, \<open>Before\<close> and \<open>After\<close> are \<open><\<close> and \<open>>\<close>, and \<open>UTC()\<close>, which changes the
  location only, is the identity.
\<close>

type_synonym gotime = int

record ToolCall =
  CallID :: string
  CallName :: string
  Arguments :: "(string \<times> jvalue) list option"
  CallOutput :: jvalue
  CallError :: string
  Metadata :: "(string \<times> jvalue) list option"
  CallTimestamp :: gotime

record Message =
  MsgID :: string
  Role :: string
  Content :: string
  ToolCalls :: "ToolCall list"
  Timestamp :: gotime

text \<open>\<open>Filter\<close>: \<open>StartTime\<close> and \<open>EndTime\<close> are pointers, \<open>None\<close> when nil; \<open>Limit\<close> and
  \<open>Offset\<close> are signed.\<close>

record Filter =
  StartTime :: "gotime option"
  EndTime :: "gotime option"
  FilterRole :: string
  Limit :: int
  Offset :: int

text \<open>The errors of the package; \<open>ErrInvalidMessage\<close> and \<open>ErrCheckpointNotFound\<close> are
  wrapped with a detail. A write to a nil map panics.\<close>

datatype session_error =
    ErrInvalidSessionID
  | ErrInvalidMessage string
  | ErrSessionClosed
  | ErrCheckpointNotFound string
  | ErrInvalidCheckpointName
  | PanicNilMapWrite

text \<open>
  \<open>MemorySession\<close>. \<open>checkpoints\<close> is \<open>None\<close> when the map is nil; \<open>seq\<close> is a \<open>uint64\<close>.
  The \<open>now\<close> field is the clock: what it returns at a call is an argument of \<open>Append\<close>.
  A nil slice is the empty list.
\<close>

record MemorySession =
  sid :: string
  messages :: "Message list"
  checkpoints :: "(string \<rightharpoonup> Message list) option"
  seq :: "64 word"
  closed :: bool

definition NewMemorySession :: "string \<Rightarrow> session_error + MemorySession" where
  "NewMemorySession ident =
     (let trimmed = TrimSpace ident in
      if trimmed = '''' then Inl ErrInvalidSessionID
      else Inr \<lparr>sid = trimmed, messages = [], checkpoints = Some Map.empty,
                seq = 0, closed = False\<rparr>)"

text \<open>The clone helpers. \<open>cloneMap\<close> turns an empty map into nil.\<close>

definition cloneMap :: "(string \<times> jvalue) list option \<Rightarrow> (string \<times> jvalue) list option" where
  "cloneMap src =
     (case src of
        None \<Rightarrow> None
      | Some m \<Rightarrow> if length m = 0 then None else Some m)"

definition cloneToolCall :: "ToolCall \<Rightarrow> ToolCall" where
  "cloneToolCall call =
     (let cloned = call;
          cloned = (if Arguments call \<noteq> None
                    then cloned\<lparr>Arguments := cloneMap (Arguments call)\<rparr> else cloned);
          cloned = (if Metadata call \<noteq> None
                    then cloned\<lparr>Metadata := cloneMap (Metadata call)\<rparr> else cloned)
      in cloned)"

definition cloneToolCalls :: "ToolCall list \<Rightarrow> ToolCall list" where
  "cloneToolCalls calls = (if length calls = 0 then [] else map cloneToolCall calls)"

definition cloneMessage :: "Message \<Rightarrow> Message" where
  "cloneMessage msg = msg\<lparr>ToolCalls := cloneToolCalls (ToolCalls msg)\<rparr>"

definition cloneMessages :: "Message list \<Rightarrow> Message list" where
  "cloneMessages src = (if length src = 0 then [] else map cloneMessage src)"

definition cloneCheckpointMap ::
  "(string \<rightharpoonup> Message list) option \<Rightarrow> (string \<rightharpoonup> Message list)" where
  "cloneCheckpointMap src =
     (case src of
        None \<Rightarrow> Map.empty
      | Some m \<Rightarrow> (\<lambda>name. map_option cloneMessages (m name)))"

text \<open>\<open>fmt.Sprintf("%s-%06d", id, seq)\<close>: the decimal digits of \<open>seq\<close>, padded with zeros
  on the left to six digits.\<close>

function decimal :: "nat \<Rightarrow> string" where
  "decimal n =
     (if n < 10 then [char_of (48 + n)]
      else decimal (n div 10) @ [char_of (48 + n mod 10)])"
  by pat_completeness auto
termination
  by (relation "measure id") auto

definition pad6 :: "string \<Rightarrow> string" where
  "pad6 ds = replicate (6 - length ds) (CHR ''0'') @ ds"

definition messageID :: "string \<Rightarrow> 64 word \<Rightarrow> string" where
  "messageID ident n = ident @ ''-'' @ pad6 (decimal (unat n))"

text \<open>\<open>Append\<close>: the session after the call and the error returned. The role is checked
  before the lock is taken and the \<open>closed\<close> flag is read.\<close>

definition Append ::
  "MemorySession \<Rightarrow> gotime \<Rightarrow> Message \<Rightarrow> MemorySession \<times> session_error option" where
  "Append s now msg =
     (if TrimSpace (Role msg) = '''' then (s, Some (ErrInvalidMessage ''role is required''))
      else if closed s then (s, Some ErrSessionClosed)
      else
        (let n = seq s + 1;
             msg = (if MsgID msg = '''' then msg\<lparr>MsgID := messageID (sid s) n\<rparr> else msg);
             msg = (if Timestamp msg = 0 then msg\<lparr>Timestamp := now\<rparr> else msg);
             msg = msg\<lparr>ToolCalls := cloneToolCalls (ToolCalls msg)\<rparr>
         in (s\<lparr>seq := n, messages := messages s @ [msg]\<rparr>, None)))"

text \<open>The loop of \<open>List\<close> over the messages, with the counter \<open>skipped\<close> and the
  \<open>result\<close> so far; the \<open>break\<close> returns the result.\<close>

fun listLoop ::
  "string \<Rightarrow> gotime option \<Rightarrow> gotime option \<Rightarrow> int \<Rightarrow> int \<Rightarrow>
   Message list \<Rightarrow> int \<Rightarrow> Message list \<Rightarrow> Message list" where
  "listLoop role start end' offset limit [] skipped result = result"
| "listLoop role start end' offset limit (msg # rest) skipped result =
     (if role \<noteq> '''' \<and> Role msg \<noteq> role then
        listLoop role start end' offset limit rest skipped result
      else if (case start of None \<Rightarrow> False | Some st \<Rightarrow> Timestamp msg < st) then
        listLoop role start end' offset limit rest skipped result
      else if (case end' of None \<Rightarrow> False | Some en \<Rightarrow> Timestamp msg > en) then
        listLoop role start end' offset limit rest skipped result
      else if skipped < offset then
        listLoop role start end' offset limit rest (skipped + 1) result
      else
        (let result = result @ [cloneMessage msg] in
         if limit > 0 \<and> int (length result) \<ge> limit then result
         else listLoop role start end' offset limit rest skipped result))"

definition List :: "MemorySession \<Rightarrow> Filter \<Rightarrow> session_error + Message list" where
  "List s flt =
     (if closed s then Inl ErrSessionClosed
      else
        (let role = TrimSpace (FilterRole flt);
             offset = (if Offset flt < 0 then 0 else Offset flt);
             limit = (if Limit flt < 0 then 0 else Limit flt)
         in Inr (listLoop role (StartTime flt) (EndTime flt) offset limit
                   (messages s) 0 [])))"

definition normalizeCheckpointName :: "string \<Rightarrow> session_error + string" where
  "normalizeCheckpointName name =
     (let trimmed = TrimSpace name in
      if trimmed = '''' then Inl ErrInvalidCheckpointName else Inr trimmed)"

definition Checkpoint ::
  "MemorySession \<Rightarrow> string \<Rightarrow> MemorySession \<times> session_error option" where
  "Checkpoint s name =
     (case normalizeCheckpointName name of
        Inl err \<Rightarrow> (s, Some err)
      | Inr normalized \<Rightarrow>
          if closed s then (s, Some ErrSessionClosed)
          else (case checkpoints s of
                  None \<Rightarrow> (s, Some PanicNilMapWrite)
                | Some cps \<Rightarrow>
                    (s\<lparr>checkpoints := Some (cps(normalized \<mapsto> cloneMessages (messages s)))\<rparr>,
                     None)))"

definition Resume ::
  "MemorySession \<Rightarrow> string \<Rightarrow> MemorySession \<times> session_error option" where
  "Resume s name =
     (case normalizeCheckpointName name of
        Inl err \<Rightarrow> (s, Some err)
      | Inr normalized \<Rightarrow>
          if closed s then (s, Some ErrSessionClosed)
          else (case (case checkpoints s of None \<Rightarrow> None | Some cps \<Rightarrow> cps normalized) of
                  None \<Rightarrow> (s, Some (ErrCheckpointNotFound normalized))
                | Some snapshot \<Rightarrow> (s\<lparr>messages := cloneMessages snapshot\<rparr>, None)))"

text \<open>\<open>Fork\<close> leaves the session as it is and returns the new one.\<close>

definition Fork :: "MemorySession \<Rightarrow> string \<Rightarrow> session_error + MemorySession" where
  "Fork s ident =
     (let trimmed = TrimSpace ident in
      if trimmed = '''' then Inl ErrInvalidSessionID
      else if closed s then Inl ErrSessionClosed
      else Inr \<lparr>sid = trimmed,
                messages = cloneMessages (messages s),
                checkpoints = Some (cloneCheckpointMap (checkpoints s)),
                seq = of_nat (length (messages s)),
                closed = False\<rparr>)"

definition Close :: "MemorySession \<Rightarrow> MemorySession \<times> session_error option" where
  "Close s =
     (if closed s then (s, None)
      else (s\<lparr>closed := True, messages := [], checkpoints := None\<rparr>, None))"

subsection \<open>An example session\<close>

text \<open>The session \<open>chat\<close> of the package's tests after one message, then closed.\<close>

definition user_message :: "string \<Rightarrow> Message" where
  "user_message text =
     \<lparr>MsgID = '''', Role = ''user'', Content = text, ToolCalls = [], Timestamp = 0\<rparr>"

definition chat_session :: MemorySession where
  "chat_session =
     (case NewMemorySession ''chat'' of
        Inr s \<Rightarrow> fst (Append s 1700000000000000000 (user_message ''hi''))
      | Inl e \<Rightarrow> undefined)"

definition closed_chat :: MemorySession where
  "closed_chat = fst (Close chat_session)"

section \<open>The approval queue\<close>

text \<open>
  Modelled from the spec: the approval queue with its record log and its whitelist. Its
  implementation is not among the sources (only its tests are), so every definition of
  this section follows sections 3, 4.4 and 7 of the specification. Where the spec leaves
  a choice open the model takes one and says so:
  \<^item> an ID is the value of a counter (the spec asks for a unique, generator-assigned ID);
  \<^item> the scope of a whitelist entry is the session, as in the package's tests (the
    optional further scoping by tool is left to configuration by the spec and is not
    modelled);
  \<^item> an entry covers the instants strictly before its expiry;
  \<^item> the record log is append-only: every state change appends the record as it is
    then, and a write to a closed log fails;
  \<^item> which parameter values are path-shaped, and their normal form on the host, are a
    parameter of the queue (\<open>pathsOf\<close>).
  The clock is an argument: \<open>now\<close> is the instant of the call, and a TTL is a number of
  nanoseconds.
\<close>

text \<open>Modelled from the spec: the decision of a record and the \<open>ApprovalRecord\<close> of
  section 3, whose declarations are not under the sources.\<close>

datatype decision = Pending | Approved | Denied

record ApprovalRecord =
  ID :: nat
  SessionID :: string
  ToolName :: string
  Params :: params
  Paths :: "string list"
  Decision :: decision
  Requested :: gotime
  ApprovedAt :: "gotime option"
  DeniedAt :: "gotime option"
  Approver :: string
  Reason :: string
  Auto :: bool

text \<open>Modelled from the spec: the errors of section 7 that the queue returns: the
  validation errors of \<open>Request\<close>, the unknown ID, the state conflict ("already decided"),
  the closed queue and the failed write to the log.\<close>

datatype approval_error =
    ErrSessionRequired
  | ErrCommandRequired
  | ErrUnknownApproval nat
  | ErrAlreadyDecided nat
  | ErrQueueClosed
  | ErrPersist

text \<open>Modelled from the spec: the record log, a durable append-only store.\<close>

record RecordLog =
  entries :: "ApprovalRecord list"
  logClosed :: bool

text \<open>Modelled from the spec: a write to the record log, which fails on a closed log.\<close>

definition logAppend :: "RecordLog \<Rightarrow> ApprovalRecord \<Rightarrow> RecordLog option" where
  "logAppend lg r = (if logClosed lg then None else Some (lg\<lparr>entries := entries lg @ [r]\<rparr>))"

text \<open>Modelled from the spec: the queue, which owns the records (in the order of their
  creation), the whitelist (scope key to expiry) and the log.\<close>

record ApprovalQueue =
  records :: "ApprovalRecord list"
  whitelist :: "string \<rightharpoonup> gotime"
  recordLog :: RecordLog
  nextID :: nat
  pathsOf :: "params \<Rightarrow> string list"

text \<open>Modelled from the spec: a new queue over an empty log. The first ID is 1.\<close>

definition NewQueue :: "(params \<Rightarrow> string list) \<Rightarrow> ApprovalQueue" where
  "NewQueue px =
     \<lparr>records = [], whitelist = Map.empty,
      recordLog = \<lparr>entries = [], logClosed = False\<rparr>, nextID = 1, pathsOf = px\<rparr>"

text \<open>Modelled from the spec: the record of an ID, and the replacement of a record by its
  new state, which keeps its place.\<close>

definition lookupRecord :: "ApprovalQueue \<Rightarrow> nat \<Rightarrow> ApprovalRecord option" where
  "lookupRecord q ident = List.find (\<lambda>r. ID r = ident) (records q)"

definition storeRecord :: "ApprovalRecord \<Rightarrow> ApprovalRecord list \<Rightarrow> ApprovalRecord list" where
  "storeRecord r' rs = map (\<lambda>r. if ID r = ID r' then r' else r) rs"

text \<open>Modelled from the spec: \<open>IsWhitelisted\<close>, a lazy expiry check that changes nothing:
  an entry whose expiry has passed is treated as absent.\<close>

definition IsWhitelisted :: "ApprovalQueue \<Rightarrow> gotime \<Rightarrow> string \<Rightarrow> bool" where
  "IsWhitelisted q now session =
     (case whitelist q session of
        None \<Rightarrow> False
      | Some expiry \<Rightarrow> now < expiry)"

text \<open>Modelled from the spec: "empty or blank" is what \<open>strings.TrimSpace\<close> reduces to
  the empty string (the package's test passes three spaces), and the reason of an
  auto-approved record notes "whitelisted".\<close>

definition blank :: "string \<Rightarrow> bool" where
  "blank s = (TrimSpace s = '''')"

definition whitelistedReason :: string where
  "whitelistedReason = ''whitelisted''"

text \<open>
  Modelled from the spec: \<open>Request\<close>. It fails when the session or the tool (command) is
  empty or blank. Otherwise the record is created Approved, with \<open>Auto\<close> set and a reason
  noting "whitelisted", when the whitelist covers the session, and Pending when not. The
  creation is persisted before the call returns, and a failed write fails the call.
  The result is the queue after the call and either the error or the record with the
  \<open>autoApproved\<close> flag.
\<close>

definition newRecord ::
  "ApprovalQueue \<Rightarrow> gotime \<Rightarrow> string \<Rightarrow> string \<Rightarrow> params \<Rightarrow> bool \<Rightarrow> ApprovalRecord" where
  "newRecord q now session tool ps auto =
     \<lparr>ID = nextID q, SessionID = session, ToolName = tool, Params = ps,
      Paths = pathsOf q ps,
      Decision = (if auto then Approved else Pending),
      Requested = now,
      ApprovedAt = (if auto then Some now else None),
      DeniedAt = None,
      Approver = '''',
      Reason = (if auto then whitelistedReason else ''''),
      Auto = auto\<rparr>"

definition Request ::
  "ApprovalQueue \<Rightarrow> gotime \<Rightarrow> string \<Rightarrow> string \<Rightarrow> params \<Rightarrow>
   ApprovalQueue \<times> (approval_error + ApprovalRecord \<times> bool)" where
  "Request q now session tool ps =
     (if blank session then (q, Inl ErrSessionRequired)
      else if blank tool then (q, Inl ErrCommandRequired)
      else if logClosed (recordLog q) then (q, Inl ErrQueueClosed)
      else
        (let auto = IsWhitelisted q now session;
             r = newRecord q now session tool ps auto
         in case logAppend (recordLog q) r of
              None \<Rightarrow> (q, Inl ErrPersist)
            | Some lg \<Rightarrow>
                (q\<lparr>records := records q @ [r], recordLog := lg, nextID := nextID q + 1\<rparr>,
                 Inr (r, auto))))"

text \<open>
  Modelled from the spec: \<open>Approve\<close>. It fails when the ID is unknown or the record is not
  Pending. On success it sets the decision, the approver and \<open>ApprovedAt\<close>, persists the
  update and, when \<open>ttl > 0\<close>, installs or refreshes the whitelist entry of the record's
  session with expiry \<open>now + ttl\<close>.
\<close>

definition Approve ::
  "ApprovalQueue \<Rightarrow> gotime \<Rightarrow> nat \<Rightarrow> string \<Rightarrow> int \<Rightarrow>
   ApprovalQueue \<times> (approval_error + ApprovalRecord)" where
  "Approve q now ident approver ttl =
     (if logClosed (recordLog q) then (q, Inl ErrQueueClosed)
      else case lookupRecord q ident of
        None \<Rightarrow> (q, Inl (ErrUnknownApproval ident))
      | Some r \<Rightarrow>
          if Decision r \<noteq> Pending then (q, Inl (ErrAlreadyDecided ident))
          else
            (let r' = r\<lparr>Decision := Approved, Approver := approver, ApprovedAt := Some now\<rparr>
             in case logAppend (recordLog q) r' of
                  None \<Rightarrow> (q, Inl ErrPersist)
                | Some lg \<Rightarrow>
                    (q\<lparr>records := storeRecord r' (records q), recordLog := lg,
                       whitelist := (if ttl > 0 then (whitelist q)(SessionID r \<mapsto> now + ttl)
                                     else whitelist q)\<rparr>,
                     Inr r')))"

text \<open>Modelled from the spec: \<open>Deny\<close>, symmetric to \<open>Approve\<close>; it installs no whitelist
  entry.\<close>

definition Deny ::
  "ApprovalQueue \<Rightarrow> gotime \<Rightarrow> nat \<Rightarrow> string \<Rightarrow> string \<Rightarrow>
   ApprovalQueue \<times> (approval_error + ApprovalRecord)" where
  "Deny q now ident approver why =
     (if logClosed (recordLog q) then (q, Inl ErrQueueClosed)
      else case lookupRecord q ident of
        None \<Rightarrow> (q, Inl (ErrUnknownApproval ident))
      | Some r \<Rightarrow>
          if Decision r \<noteq> Pending then (q, Inl (ErrAlreadyDecided ident))
          else
            (let r' = r\<lparr>Decision := Denied, Approver := approver, DeniedAt := Some now,
                        Reason := why\<rparr>
             in case logAppend (recordLog q) r' of
                  None \<Rightarrow> (q, Inl ErrPersist)
                | Some lg \<Rightarrow>
                    (q\<lparr>records := storeRecord r' (records q), recordLog := lg\<rparr>, Inr r')))"

text \<open>Modelled from the spec: \<open>ListPending\<close> and \<open>Close\<close>, which closes the record log.\<close>

definition ListPending :: "ApprovalQueue \<Rightarrow> string \<Rightarrow> ApprovalRecord list" where
  "ListPending q session =
     filter (\<lambda>r. Decision r = Pending \<and> SessionID r = session) (records q)"

definition CloseQueue :: "ApprovalQueue \<Rightarrow> ApprovalQueue" where
  "CloseQueue q = q\<lparr>recordLog := (recordLog q)\<lparr>logClosed := True\<rparr>\<rparr>"

text \<open>
  The calls a client can make, each at its instant, and a run of such calls: the queue
  after each call is the queue of the next. \<open>outcomes\<close> lists what each call returned:
  an error, a record, or nothing (\<open>Close\<close>).
\<close>

datatype call =
    CallRequest gotime string string params
  | CallApprove gotime nat string int
  | CallDeny gotime nat string string
  | CallClose

datatype outcome = Failed approval_error | Gave ApprovalRecord | Done

definition outcomeOf :: "approval_error + ApprovalRecord \<Rightarrow> outcome" where
  "outcomeOf res = (case res of Inl e \<Rightarrow> Failed e | Inr r \<Rightarrow> Gave r)"

fun perform :: "ApprovalQueue \<Rightarrow> call \<Rightarrow> ApprovalQueue \<times> outcome" where
  "perform q (CallRequest now session tool ps) =
     (case Request q now session tool ps of
        (q', Inl e) \<Rightarrow> (q', Failed e)
      | (q', Inr (r, auto)) \<Rightarrow> (q', Gave r))"
| "perform q (CallApprove now ident approver ttl) =
     (case Approve q now ident approver ttl of (q', res) \<Rightarrow> (q', outcomeOf res))"
| "perform q (CallDeny now ident approver why) =
     (case Deny q now ident approver why of (q', res) \<Rightarrow> (q', outcomeOf res))"
| "perform q CallClose = (CloseQueue q, Done)"

fun run :: "ApprovalQueue \<Rightarrow> call list \<Rightarrow> ApprovalQueue" where
  "run q [] = q"
| "run q (c # cs) = run (fst (perform q c)) cs"

fun outcomes :: "ApprovalQueue \<Rightarrow> call list \<Rightarrow> (call \<times> outcome) list" where
  "outcomes q [] = []"
| "outcomes q (c # cs) = (c, snd (perform q c)) # outcomes (fst (perform q c)) cs"

text \<open>A call that decides the record \<open>ident\<close>: an \<open>Approve\<close> or a \<open>Deny\<close> of that ID which
  succeeded.\<close>

fun decides :: "nat \<Rightarrow> call \<times> outcome \<Rightarrow> bool" where
  "decides ident (CallApprove now i approver ttl, Gave r) = (i = ident)"
| "decides ident (CallDeny now i approver why, Gave r) = (i = ident)"
| "decides ident other = False"

text \<open>The error of a decision on a record that is already decided: the queue is closed,
  or the record is "already decided".\<close>

definition refusal :: "ApprovalQueue \<Rightarrow> nat \<Rightarrow> approval_error" where
  "refusal q ident =
     (if logClosed (recordLog q) then ErrQueueClosed else ErrAlreadyDecided ident)"

text \<open>The record \<open>r\<close> is the record \<open>ident\<close> of the queue and it is decided.\<close>

definition settled :: "ApprovalQueue \<Rightarrow> nat \<Rightarrow> ApprovalRecord \<Rightarrow> bool" where
  "settled q ident r = (lookupRecord q ident = Some r \<and> Decision r \<noteq> Pending)"



text \<open>What \<open>Request\<close> establishes of every record: a session that is not blank and an ID
  below the counter.\<close>

definition wellFormed :: "ApprovalQueue \<Rightarrow> bool" where
  "wellFormed q = list_all (\<lambda>r. \<not> blank (SessionID r) \<and> ID r < nextID q) (records q)"

subsection \<open>The queues of the package's tests\<close>

text \<open>
  The test clock starts at \<open>time.Unix(1_700_000_000, 0)\<close>. \<open>pending_queue\<close> is a new
  queue after \<open>Request("sess", "ls", nil)\<close>, which creates \<open>pending_record\<close>;
  \<open>denied_queue\<close> is that queue after \<open>Deny(1, "bob", "unsafe")\<close>, and \<open>approved_queue\<close>
  is \<open>pending_queue\<close> after \<open>Approve(1, "alice", time.Minute)\<close>.
\<close>

definition test_clock :: gotime where
  "test_clock = 1700000000000000000"

definition minute :: int where
  "minute = 60000000000"

definition no_paths :: "params \<Rightarrow> string list" where
  "no_paths ps = []"

definition pending_record :: ApprovalRecord where
  "pending_record =
     \<lparr>ID = 1, SessionID = ''sess'', ToolName = ''ls'', Params = None, Paths = [],
      Decision = Pending, Requested = test_clock, ApprovedAt = None, DeniedAt = None,
      Approver = '''', Reason = '''', Auto = False\<rparr>"

definition pending_queue :: ApprovalQueue where
  "pending_queue = fst (Request (NewQueue no_paths) test_clock ''sess'' ''ls'' None)"

definition denied_record :: ApprovalRecord where
  "denied_record =
     pending_record\<lparr>Decision := Denied, Approver := ''bob'', DeniedAt := Some test_clock,
                     Reason := ''unsafe''\<rparr>"

definition denied_queue :: ApprovalQueue where
  "denied_queue = fst (Deny pending_queue test_clock 1 ''bob'' ''unsafe'')"

definition approved_record :: ApprovalRecord where
  "approved_record =
     pending_record\<lparr>Decision := Approved, Approver := ''alice'',
                     ApprovedAt := Some test_clock\<rparr>"

definition approved_queue :: ApprovalQueue where
  "approved_queue = fst (Approve pending_queue test_clock 1 ''alice'' minute)"



section \<open>Theorems\<close>

subsection \<open>Registry\<close>

lemma example_registry_tools:
  "tools example_registry ''echo'' = Some echo_tool"
  "tools example_registry ''plain'' = Some plain_tool"
  "validator example_registry = Some (Validate example_strconv)"
  by (simp_all add: example_registry_def Register_def NewRegistry_def Let_def
      echo_tool_def plain_tool_def)

text \<open>
  C8. \<open>Register\<close> fails and leaves the registry as it was when a tool of that name is
  already registered (the existing registration is kept), when the tool is nil, and when
  its name is empty.
\<close>

theorem Register_conflict_keeps_registry:
  "(tools r (Name t) \<noteq> None \<longrightarrow>
      Register r (Some t) =
        (r, Some (if Name t = '''' then ErrToolNameEmpty
                  else ErrToolAlreadyRegistered (Name t))))
   \<and> Register r None = (r, Some ErrToolIsNil)
   \<and> (Name t = '''' \<longrightarrow> Register r (Some t) = (r, Some ErrToolNameEmpty))"
  by (simp add: Register_def Let_def)

theorem Register_conflict_keeps_registry_witness:
  "tools example_registry (Name echo_tool) \<noteq> None
   \<and> Register example_registry (Some echo_tool) =
       (example_registry, Some (ErrToolAlreadyRegistered ''echo''))
   \<and> tools (fst (Register example_registry (Some echo_tool))) ''echo'' = Some echo_tool
   \<and> Register example_registry None = (example_registry, Some ErrToolIsNil)
   \<and> Name (echo_tool\<lparr>Name := ''''\<rparr>) = ''''
   \<and> Register example_registry (Some (echo_tool\<lparr>Name := ''''\<rparr>)) =
       (example_registry, Some ErrToolNameEmpty)"
proof -
  have n: "Name echo_tool = ''echo''"
    by (simp add: echo_tool_def)
  have h: "tools example_registry (Name echo_tool) \<noteq> None"
    by (simp add: n example_registry_tools)
  have e: "Name (echo_tool\<lparr>Name := ''''\<rparr>) = ''''"
    by simp
  from Register_conflict_keeps_registry [of example_registry echo_tool] h
  have a: "Register example_registry (Some echo_tool) =
             (example_registry, Some (ErrToolAlreadyRegistered ''echo''))"
    by (simp add: n)
  from Register_conflict_keeps_registry [of example_registry "echo_tool\<lparr>Name := ''''\<rparr>"] e
  have b: "Register example_registry None = (example_registry, Some ErrToolIsNil)"
    and c: "Register example_registry (Some (echo_tool\<lparr>Name := ''''\<rparr>)) =
             (example_registry, Some ErrToolNameEmpty)"
    by blast+
  show ?thesis
    using h e a b c by (simp add: example_registry_tools)
qed

subsection \<open>Validation before execution\<close>

lemma checkRequired_missing:
  "f \<in> set req \<Longrightarrow> map_of ps f = None \<Longrightarrow>
   \<exists>f'. checkRequired ps req = Some (ErrMissingRequiredField f')"
  by (induction req) auto

lemma validateProps_rejects:
  "(k, v) \<in> set ps \<Longrightarrow> map_of props k = Some d \<Longrightarrow> extractExpectedType d = Inr ty \<Longrightarrow>
   ty \<noteq> '''' \<Longrightarrow> validateType sc v ty = Some e \<Longrightarrow>
   \<exists>e'. validateProps sc props ps = Some e'"
  by (induction ps) (auto split: option.splits sum.splits)

lemma Validate_missing_required:
  assumes "f \<in> set (Required s)" "map_of (paramEntries ps) f = None"
  shows "\<exists>f'. Validate sc ps (Some s) = Some (ErrMissingRequiredField f')"
  using checkRequired_missing [OF assms] by (auto simp: Validate_def Let_def)

lemma Validate_wrong_type:
  assumes "(k, v) \<in> set (paramEntries ps)" "map_of (Properties s) k = Some d"
    "extractExpectedType d = Inr ty" "ty \<noteq> ''''" "validateType sc v ty = Some e"
  shows "\<exists>e'. Validate sc ps (Some s) = Some e'"
proof (cases "checkRequired (paramEntries ps) (Required s)")
  case None
  from assms(2) have "Properties s \<noteq> []" by auto
  with None validateProps_rejects [OF assms] show ?thesis
    by (auto simp: Validate_def Let_def)
next
  case (Some a)
  then show ?thesis by (simp add: Validate_def Let_def)
qed

lemma Execute_rejected:
  assumes "tools r name = Some t" "Schema t = Some s" "validator r = Some v"
    "v ps (Some s) = Some e"
  shows "Execute r name ps w =
           ((None, Some (if e = PanicNilDereference then e else ErrValidationFailed name e)), w)"
  using assms by (cases e) (simp_all add: Execute_def Get_def)

text \<open>
  C9. For a registered tool \<open>t\<close>: when its schema is not nil and the registry's validator
  rejects the parameters, \<open>Execute\<close> returns that error (wrapped as the tool's validation
  failure) and the world is untouched, so the tool's body has not run. The default
  validator rejects when a required field is missing and when a declared property holds a
  value that \<open>validateType\<close> refuses for the declared type. When the schema is nil,
  when the registry has no validator and when the validator accepts, \<open>Execute\<close> is the
  tool's body.
\<close>

theorem Execute_validates_before_running:
  assumes "tools r name = Some t"
  shows "(\<forall>s v e. Schema t = Some s \<and> validator r = Some v \<and> v ps (Some s) = Some e \<longrightarrow>
            Execute r name ps w =
              ((None, Some (if e = PanicNilDereference then e
                            else ErrValidationFailed name e)), w))
       \<and> (\<forall>s f. Schema t = Some s \<and> validator r = Some (Validate sc) \<and>
            f \<in> set (Required s) \<and> map_of (paramEntries ps) f = None \<longrightarrow>
            (\<exists>f'. Execute r name ps w =
               ((None, Some (ErrValidationFailed name (ErrMissingRequiredField f'))), w)))
       \<and> (\<forall>s k v d ty e. Schema t = Some s \<and> validator r = Some (Validate sc) \<and>
            (k, v) \<in> set (paramEntries ps) \<and> map_of (Properties s) k = Some d \<and>
            extractExpectedType d = Inr ty \<and> ty \<noteq> '''' \<and> validateType sc v ty = Some e \<longrightarrow>
            (\<exists>err. Execute r name ps w = ((None, Some err), w)))
       \<and> (Schema t = None \<longrightarrow> Execute r name ps w = ToolExecute t ps w)
       \<and> (validator r = None \<longrightarrow> Execute r name ps w = ToolExecute t ps w)
       \<and> (\<forall>s v. Schema t = Some s \<and> validator r = Some v \<and> v ps (Some s) = None \<longrightarrow>
            Execute r name ps w = ToolExecute t ps w)"
proof (intro conjI allI impI)
  fix s v e
  assume "Schema t = Some s \<and> validator r = Some v \<and> v ps (Some s) = Some e"
  then show "Execute r name ps w =
      ((None, Some (if e = PanicNilDereference then e else ErrValidationFailed name e)), w)"
    using Execute_rejected [OF assms] by blast
next
  fix s f
  assume h: "Schema t = Some s \<and> validator r = Some (Validate sc) \<and>
            f \<in> set (Required s) \<and> map_of (paramEntries ps) f = None"
  then obtain f' where "Validate sc ps (Some s) = Some (ErrMissingRequiredField f')"
    using Validate_missing_required by blast
  with h Execute_rejected [OF assms, of s "Validate sc" ps "ErrMissingRequiredField f'" w]
  show "\<exists>f'. Execute r name ps w =
               ((None, Some (ErrValidationFailed name (ErrMissingRequiredField f'))), w)"
    by auto
next
  fix s k v d ty e
  assume h: "Schema t = Some s \<and> validator r = Some (Validate sc) \<and>
            (k, v) \<in> set (paramEntries ps) \<and> map_of (Properties s) k = Some d \<and>
            extractExpectedType d = Inr ty \<and> ty \<noteq> '''' \<and> validateType sc v ty = Some e"
  then obtain e' where "Validate sc ps (Some s) = Some e'"
    using Validate_wrong_type by blast
  with h Execute_rejected [OF assms, of s "Validate sc" ps e' w]
  show "\<exists>err. Execute r name ps w = ((None, Some err), w)"
    by auto
next
  assume "Schema t = None"
  with assms show "Execute r name ps w = ToolExecute t ps w"
    by (simp add: Execute_def Get_def)
next
  assume "validator r = None"
  with assms show "Execute r name ps w = ToolExecute t ps w"
    by (simp add: Execute_def Get_def split: option.splits)
next
  fix s v
  assume "Schema t = Some s \<and> validator r = Some v \<and> v ps (Some s) = None"
  with assms show "Execute r name ps w = ToolExecute t ps w"
    by (simp add: Execute_def Get_def)
qed

theorem Execute_validates_before_running_witness:
  "tools example_registry ''echo'' = Some echo_tool
   \<and> Schema echo_tool = Some echo_schema
   \<and> validator example_registry = Some (Validate example_strconv)
   \<and> Validate example_strconv (Some [(''text'', VInt 1)]) (Some echo_schema) =
       Some (ErrField ''text'' (ErrExpectedButGot ''string'' (VInt 1)))
   \<and> Execute example_registry ''echo'' (Some [(''text'', VInt 1)]) 0 =
       ((None, Some (ErrValidationFailed ''echo''
                 (ErrField ''text'' (ErrExpectedButGot ''string'' (VInt 1))))), 0)
   \<and> ''text'' \<in> set (Required echo_schema)
   \<and> map_of (paramEntries (Some [(''other'', VInt 1)])) ''text'' = None
   \<and> Execute example_registry ''echo'' (Some [(''other'', VInt 1)]) 0 =
       ((None, Some (ErrValidationFailed ''echo'' (ErrMissingRequiredField ''text''))), 0)
   \<and> tools example_registry ''plain'' = Some plain_tool
   \<and> Schema plain_tool = None
   \<and> Execute example_registry ''plain'' None 0 = counting_body None 0"
proof -
  note t = example_registry_tools
  have s: "Schema echo_tool = Some echo_schema" "Schema plain_tool = None"
    by (simp_all add: echo_tool_def plain_tool_def)
  have v: "Validate example_strconv (Some [(''text'', VInt 1)]) (Some echo_schema) =
       Some (ErrField ''text'' (ErrExpectedButGot ''string'' (VInt 1)))"
    by (simp add: Validate_def paramEntries_def echo_schema_def validateType_def)
  have m: "''text'' \<in> set (Required echo_schema)"
    "map_of (paramEntries (Some [(''other'', VInt 1)])) ''text'' = None"
    by (simp_all add: echo_schema_def paramEntries_def)
  have v2: "Validate example_strconv (Some [(''other'', VInt 1)]) (Some echo_schema) =
       Some (ErrMissingRequiredField ''text'')"
    by (simp add: Validate_def paramEntries_def echo_schema_def)
  from Execute_validates_before_running [OF t(1), of "Some [(''text'', VInt 1)]" "0::nat"]
    s(1) t(3) v
  have a: "Execute example_registry ''echo'' (Some [(''text'', VInt 1)]) 0 =
       ((None, Some (ErrValidationFailed ''echo''
                 (ErrField ''text'' (ErrExpectedButGot ''string'' (VInt 1))))), 0)"
    by simp
  from Execute_validates_before_running [OF t(1), of "Some [(''other'', VInt 1)]" "0::nat"]
    s(1) t(3) v2
  have b: "Execute example_registry ''echo'' (Some [(''other'', VInt 1)]) 0 =
       ((None, Some (ErrValidationFailed ''echo'' (ErrMissingRequiredField ''text''))), 0)"
    by simp
  from Execute_validates_before_running [OF t(2), of None "0::nat"] s(2)
  have c: "Execute example_registry ''plain'' None 0 = counting_body None 0"
    by (simp add: plain_tool_def)
  show ?thesis
    using t s v m a b c by simp
qed

subsection \<open>A closed session\<close>

lemma closed_chat_closed: "closed closed_chat"
  by (simp add: closed_chat_def Close_def)

text \<open>
  C10, as amended. On a closed session \<open>List\<close> fails with \<open>ErrSessionClosed\<close>, and so do
  \<open>Append\<close>, \<open>Checkpoint\<close>, \<open>Resume\<close> and \<open>Fork\<close> when their argument passes validation;
  with a blank role, checkpoint name or fork id they fail with the validation error
  instead, which is checked first. No call succeeds, none panics, and the session is left
  as it was. \<open>Close\<close> leaves a session closed and returns nil, also on a closed session.
\<close>

theorem closed_session_fails:
  assumes "closed s"
  shows "Append s now msg =
           (s, Some (if TrimSpace (Role msg) = '''' then ErrInvalidMessage ''role is required''
                     else ErrSessionClosed))
       \<and> List s flt = Inl ErrSessionClosed
       \<and> Checkpoint s name =
           (s, Some (if TrimSpace name = '''' then ErrInvalidCheckpointName
                     else ErrSessionClosed))
       \<and> Resume s name =
           (s, Some (if TrimSpace name = '''' then ErrInvalidCheckpointName
                     else ErrSessionClosed))
       \<and> Fork s ident =
           Inl (if TrimSpace ident = '''' then ErrInvalidSessionID else ErrSessionClosed)
       \<and> Close s = (s, None)
       \<and> closed (fst (Close s0)) \<and> snd (Close s0) = None"
proof -
  have a: "Append s now msg =
           (s, Some (if TrimSpace (Role msg) = '''' then ErrInvalidMessage ''role is required''
                     else ErrSessionClosed))"
    using assms by (simp add: Append_def)
  have l: "List s flt = Inl ErrSessionClosed"
    using assms by (simp add: List_def)
  have c: "Checkpoint s name =
           (s, Some (if TrimSpace name = '''' then ErrInvalidCheckpointName
                     else ErrSessionClosed))"
    using assms by (simp add: Checkpoint_def normalizeCheckpointName_def Let_def)
  have r: "Resume s name =
           (s, Some (if TrimSpace name = '''' then ErrInvalidCheckpointName
                     else ErrSessionClosed))"
    using assms by (simp add: Resume_def normalizeCheckpointName_def Let_def)
  have f: "Fork s ident =
           Inl (if TrimSpace ident = '''' then ErrInvalidSessionID else ErrSessionClosed)"
    using assms by (simp add: Fork_def Let_def)
  have k: "Close s = (s, None)"
    using assms by (simp add: Close_def)
  have k0: "closed (fst (Close s0)) \<and> snd (Close s0) = None"
    by (simp add: Close_def)
  from a l c r f k k0 show ?thesis by blast
qed

theorem closed_session_fails_witness:
  "closed closed_chat
   \<and> Append closed_chat 5 (user_message ''after'') = (closed_chat, Some ErrSessionClosed)
   \<and> List closed_chat \<lparr>StartTime = None, EndTime = None, FilterRole = '''',
        Limit = 0, Offset = 0\<rparr> = Inl ErrSessionClosed
   \<and> Checkpoint closed_chat ''alpha'' = (closed_chat, Some ErrSessionClosed)
   \<and> Resume closed_chat ''alpha'' = (closed_chat, Some ErrSessionClosed)
   \<and> Fork closed_chat ''child'' = Inl ErrSessionClosed
   \<and> Fork closed_chat '''' = Inl ErrInvalidSessionID
   \<and> Close closed_chat = (closed_chat, None)"
proof -
  have t: "TrimSpace (Role (user_message ''after'')) \<noteq> ''''" "TrimSpace ''alpha'' \<noteq> ''''"
    "TrimSpace ''child'' \<noteq> ''''" "TrimSpace '''' = ''''"
    by (simp_all add: user_message_def TrimSpace_def space_prefix_len_def
        space_suffix_len_def space_runes_def)
  from closed_session_fails [OF closed_chat_closed, of 5 "user_message ''after''" _ "''alpha''"
      "''child''"]
    closed_session_fails [OF closed_chat_closed, of _ _ _ _ "''''"] t closed_chat_closed
  show ?thesis
    by simp
qed

text \<open>
  C10 as stated fails: after \<open>Close\<close>, an \<open>Append\<close> of a message without a role does not
  fail with \<open>ErrSessionClosed\<close> but with \<open>ErrInvalidMessage\<close>.
\<close>

theorem closed_append_without_role_counterexample:
  "snd (Close chat_session) = None
   \<and> snd (Append (fst (Close chat_session)) 5 ((user_message ''after'')\<lparr>Role := ''''\<rparr>))
       = Some (ErrInvalidMessage ''role is required'')
   \<and> snd (Append (fst (Close chat_session)) 5 ((user_message ''after'')\<lparr>Role := ''''\<rparr>))
       \<noteq> Some ErrSessionClosed"
  by (simp add: Close_def Append_def TrimSpace_def)

subsection \<open>Approval decisions are terminal\<close>

lemma find_append_found: "List.find P xs = Some x \<Longrightarrow> List.find P (xs @ ys) = Some x"
  by (induction xs) (auto split: if_splits)

lemma find_map_other:
  "(\<And>r. P (f r) = P r) \<Longrightarrow> (\<And>r. P r \<Longrightarrow> f r = r) \<Longrightarrow> List.find P (map f rs) = List.find P rs"
  by (induction rs) auto

lemma find_ID: "List.find (\<lambda>r. ID r = i) rs = Some r \<Longrightarrow> ID r = i"
  by (induction rs) (auto split: if_splits)

lemma lookupRecord_ID: "lookupRecord q i = Some r \<Longrightarrow> ID r = i"
  unfolding lookupRecord_def by (rule find_ID)

lemma find_storeRecord_other:
  "ID r' \<noteq> i \<Longrightarrow>
   List.find (\<lambda>r. ID r = i) (storeRecord r' rs) = List.find (\<lambda>r. ID r = i) rs"
  unfolding storeRecord_def by (rule find_map_other) auto

lemma find_storeRecord_same:
  "List.find (\<lambda>r. ID r = ID r') rs = Some r \<Longrightarrow>
   List.find (\<lambda>r. ID r = ID r') (storeRecord r' rs) = Some r'"
  unfolding storeRecord_def by (induction rs) (auto split: if_splits)

lemma Approve_settled:
  "settled q i r \<Longrightarrow> Approve q now i a ttl = (q, Inl (refusal q i))"
  by (simp add: settled_def Approve_def refusal_def)

lemma Deny_settled:
  "settled q i r \<Longrightarrow> Deny q now i a why = (q, Inl (refusal q i))"
  by (simp add: settled_def Deny_def refusal_def)

lemma Request_settled:
  "settled q i r \<Longrightarrow> settled (fst (Request q now s t ps)) i r"
  by (auto simp: settled_def Request_def Let_def lookupRecord_def logAppend_def find_append_found
      split: option.splits)

lemma Approve_fails_unchanged:
  "Approve q now i a ttl = (q1, Inl e) \<Longrightarrow> q1 = q"
  by (auto simp: Approve_def Let_def split: option.splits if_splits)

lemma Deny_fails_unchanged:
  "Deny q now i a why = (q1, Inl e) \<Longrightarrow> q1 = q"
  by (auto simp: Deny_def Let_def split: option.splits if_splits)

lemma Approve_succeeds:
  assumes "Approve q now i a ttl = (q1, Inr r1)"
  obtains r where "lookupRecord q i = Some r" "Decision r = Pending"
    "\<not> logClosed (recordLog q)"
    "r1 = r\<lparr>Decision := Approved, Approver := a, ApprovedAt := Some now\<rparr>"
    "records q1 = storeRecord r1 (records q)"
    "recordLog q1 = (recordLog q)\<lparr>entries := entries (recordLog q) @ [r1]\<rparr>"
    "whitelist q1 = (if ttl > 0 then (whitelist q)(SessionID r \<mapsto> now + ttl) else whitelist q)"
    "nextID q1 = nextID q" "pathsOf q1 = pathsOf q"
  using assms
  by (auto simp: Approve_def Let_def logAppend_def split: option.splits if_splits)

lemma Deny_succeeds:
  assumes "Deny q now i a why = (q1, Inr r1)"
  obtains r where "lookupRecord q i = Some r" "Decision r = Pending"
    "\<not> logClosed (recordLog q)"
    "r1 = r\<lparr>Decision := Denied, Approver := a, DeniedAt := Some now, Reason := why\<rparr>"
    "records q1 = storeRecord r1 (records q)"
    "recordLog q1 = (recordLog q)\<lparr>entries := entries (recordLog q) @ [r1]\<rparr>"
    "whitelist q1 = whitelist q"
    "nextID q1 = nextID q" "pathsOf q1 = pathsOf q"
  using assms
  by (auto simp: Deny_def Let_def logAppend_def split: option.splits if_splits)

lemma storeRecord_keeps_settled:
  assumes "settled q i r" "ID r' \<noteq> i" "records q1 = storeRecord r' (records q)"
  shows "settled q1 i r"
  using assms by (simp add: settled_def lookupRecord_def find_storeRecord_other)

lemma Approve_keeps_settled:
  assumes "settled q i r"
  shows "settled (fst (Approve q now j a ttl)) i r"
proof (cases "Approve q now j a ttl")
  case (Pair q1 res)
  show ?thesis
  proof (cases res)
    case (Inl e)
    with Pair Approve_fails_unchanged have "q1 = q" by blast
    with Pair assms show ?thesis by simp
  next
    case (Inr r1)
    with Pair have ok: "Approve q now j a ttl = (q1, Inr r1)" by simp
    from ok obtain r0 where r0: "lookupRecord q j = Some r0" "Decision r0 = Pending"
      "r1 = r0\<lparr>Decision := Approved, Approver := a, ApprovedAt := Some now\<rparr>"
      "records q1 = storeRecord r1 (records q)"
      by (rule Approve_succeeds)
    from r0(1,2) assms have "j \<noteq> i" by (auto simp: settled_def)
    moreover from r0(1,3) have "ID r1 = j" by (simp add: lookupRecord_ID)
    ultimately have "settled q1 i r"
      using storeRecord_keeps_settled [OF assms _ r0(4)] by simp
    with Pair show ?thesis by simp
  qed
qed

lemma Deny_keeps_settled:
  assumes "settled q i r"
  shows "settled (fst (Deny q now j a why)) i r"
proof (cases "Deny q now j a why")
  case (Pair q1 res)
  show ?thesis
  proof (cases res)
    case (Inl e)
    with Pair Deny_fails_unchanged have "q1 = q" by blast
    with Pair assms show ?thesis by simp
  next
    case (Inr r1)
    with Pair have ok: "Deny q now j a why = (q1, Inr r1)" by simp
    from ok obtain r0 where r0: "lookupRecord q j = Some r0" "Decision r0 = Pending"
      "r1 = r0\<lparr>Decision := Denied, Approver := a, DeniedAt := Some now, Reason := why\<rparr>"
      "records q1 = storeRecord r1 (records q)"
      by (rule Deny_succeeds)
    from r0(1,2) assms have "j \<noteq> i" by (auto simp: settled_def)
    moreover from r0(1,3) have "ID r1 = j" by (simp add: lookupRecord_ID)
    ultimately have "settled q1 i r"
      using storeRecord_keeps_settled [OF assms _ r0(4)] by simp
    with Pair show ?thesis by simp
  qed
qed

lemma perform_keeps_settled:
  "settled q i r \<Longrightarrow> settled (fst (perform q c)) i r"
proof (cases c)
  case (CallRequest now s t ps)
  assume "settled q i r"
  from Request_settled [OF this, of now s t ps] CallRequest show ?thesis
    by (auto split: prod.splits sum.splits)
next
  case (CallApprove now j a ttl)
  assume "settled q i r"
  from Approve_keeps_settled [OF this, of now j a ttl] CallApprove show ?thesis
    by (auto split: prod.splits)
next
  case (CallDeny now j a why)
  assume "settled q i r"
  from Deny_keeps_settled [OF this, of now j a why] CallDeny show ?thesis
    by (auto split: prod.splits)
next
  case CallClose
  assume "settled q i r"
  with CallClose show ?thesis
    by (simp add: settled_def CloseQueue_def lookupRecord_def)
qed

lemma run_keeps_settled:
  "settled q i r \<Longrightarrow> settled (run q cs) i r"
  by (induction cs arbitrary: q) (auto intro: perform_keeps_settled)

lemma perform_settled_not_decides:
  "settled q i r \<Longrightarrow> \<not> decides i (c, snd (perform q c))"
  by (cases c) (auto simp: Approve_settled Deny_settled outcomeOf_def split: prod.splits sum.splits)

lemma outcomes_settled:
  "settled q i r \<Longrightarrow> filter (decides i) (outcomes q cs) = []"
  by (induction cs arbitrary: q) (auto simp: perform_settled_not_decides perform_keeps_settled)

lemma Approve_settles:
  assumes "Approve q now i a ttl = (q1, Inr r1)"
  shows "settled q1 i r1 \<and> Decision r1 = Approved"
proof -
  from assms obtain r0 where r0: "lookupRecord q i = Some r0"
    "r1 = r0\<lparr>Decision := Approved, Approver := a, ApprovedAt := Some now\<rparr>"
    "records q1 = storeRecord r1 (records q)"
    by (rule Approve_succeeds)
  from r0(1,2) have i: "ID r1 = i" by (simp add: lookupRecord_ID)
  from r0(1) i have "List.find (\<lambda>r. ID r = ID r1) (records q) = Some r0"
    by (simp add: lookupRecord_def)
  from find_storeRecord_same [OF this] r0(3) i have "lookupRecord q1 i = Some r1"
    by (simp add: lookupRecord_def)
  with r0(2) show ?thesis by (simp add: settled_def)
qed

lemma Deny_settles:
  assumes "Deny q now i a why = (q1, Inr r1)"
  shows "settled q1 i r1 \<and> Decision r1 = Denied"
proof -
  from assms obtain r0 where r0: "lookupRecord q i = Some r0"
    "r1 = r0\<lparr>Decision := Denied, Approver := a, DeniedAt := Some now, Reason := why\<rparr>"
    "records q1 = storeRecord r1 (records q)"
    by (rule Deny_succeeds)
  from r0(1,2) have i: "ID r1 = i" by (simp add: lookupRecord_ID)
  from r0(1) i have "List.find (\<lambda>r. ID r = ID r1) (records q) = Some r0"
    by (simp add: lookupRecord_def)
  from find_storeRecord_same [OF this] r0(3) i have "lookupRecord q1 i = Some r1"
    by (simp add: lookupRecord_def)
  with r0(2) show ?thesis by (simp add: settled_def)
qed

lemma decides_settles:
  assumes "decides i (c, snd (perform q c))"
  shows "\<exists>r. settled (fst (perform q c)) i r"
proof (cases c)
  case (CallApprove now j a ttl)
  with assms obtain q1 r1 where "Approve q now i a ttl = (q1, Inr r1)" "j = i"
    by (cases "Approve q now j a ttl") (auto simp: outcomeOf_def split: sum.splits)
  with Approve_settles [OF this(1)] CallApprove show ?thesis
    by (auto simp: outcomeOf_def)
next
  case (CallDeny now j a why)
  with assms obtain q1 r1 where "Deny q now i a why = (q1, Inr r1)" "j = i"
    by (cases "Deny q now j a why") (auto simp: outcomeOf_def split: sum.splits)
  with Deny_settles [OF this(1)] CallDeny show ?thesis
    by (auto simp: outcomeOf_def)
qed (use assms in \<open>auto split: prod.splits sum.splits\<close>)

lemma at_most_one_decision:
  "length (filter (decides i) (outcomes q cs)) \<le> 1"
proof (induction cs arbitrary: q)
  case Nil
  show ?case by simp
next
  case (Cons c cs)
  show ?case
  proof (cases "decides i (c, snd (perform q c))")
    case True
    from decides_settles [OF True] obtain r where "settled (fst (perform q c)) i r" ..
    from outcomes_settled [OF this] True show ?thesis by simp
  next
    case False
    with Cons.IH [of "fst (perform q c)"] show ?thesis by simp
  qed
qed

lemma not_blank_examples:
  "\<not> blank ''sess''" "\<not> blank ''ls''" "\<not> blank ''rm''" "blank ''''" "blank ''   ''"
  by (simp_all add: blank_def TrimSpace_def space_prefix_len_def space_suffix_len_def
      space_runes_def)

lemma pending_queue_eq:
  "pending_queue =
     \<lparr>records = [pending_record], whitelist = Map.empty,
      recordLog = \<lparr>entries = [pending_record], logClosed = False\<rparr>,
      nextID = 2, pathsOf = no_paths\<rparr>"
  by (simp add: pending_queue_def Request_def NewQueue_def not_blank_examples IsWhitelisted_def
      logAppend_def pending_record_def no_paths_def newRecord_def Let_def)

lemma Deny_pending:
  "Deny pending_queue test_clock 1 ''bob'' ''unsafe'' = (denied_queue, Inr denied_record)"
  by (simp add: denied_queue_def denied_record_def pending_queue_eq Deny_def lookupRecord_def
      logAppend_def storeRecord_def pending_record_def Let_def)

lemma Approve_pending:
  "Approve pending_queue test_clock 1 ''alice'' minute = (approved_queue, Inr approved_record)"
  by (simp add: approved_queue_def approved_record_def pending_queue_eq Approve_def
      lookupRecord_def logAppend_def storeRecord_def pending_record_def Let_def minute_def)

text \<open>
  C1. In any run of calls at most one \<open>Approve\<close> or \<open>Deny\<close> of a given ID succeeds. Once
  one has succeeded, whichever it was, the record keeps the decision it was given through
  every later run of calls, and every later \<open>Approve\<close> or \<open>Deny\<close> of that ID returns an
  error ("already decided", or "closed" once the queue is closed) and leaves the queue,
  and so the record, as it was.
\<close>

theorem decision_is_terminal:
  "length (filter (decides ident) (outcomes q cs)) \<le> 1
   \<and> (Approve q now ident a ttl = (q1, Inr r1) \<or> Deny q now ident a why = (q1, Inr r1) \<longrightarrow>
        (\<forall>cs' t a' ttl' why'.
           lookupRecord (run q1 cs') ident = Some r1
         \<and> Approve (run q1 cs') t ident a' ttl' =
             (run q1 cs', Inl (refusal (run q1 cs') ident))
         \<and> Deny (run q1 cs') t ident a' why' =
             (run q1 cs', Inl (refusal (run q1 cs') ident))))
   \<and> (Approve q now ident a ttl = (q1, Inr r1) \<longrightarrow> Decision r1 = Approved)
   \<and> (Deny q now ident a why = (q1, Inr r1) \<longrightarrow> Decision r1 = Denied)"
proof (intro conjI impI allI)
  show "length (filter (decides ident) (outcomes q cs)) \<le> 1"
    by (rule at_most_one_decision)
next
  assume "Approve q now ident a ttl = (q1, Inr r1)"
  then show "Decision r1 = Approved" using Approve_settles by blast
next
  assume "Deny q now ident a why = (q1, Inr r1)"
  then show "Decision r1 = Denied" using Deny_settles by blast
next
  fix cs' t a' ttl' why'
  assume "Approve q now ident a ttl = (q1, Inr r1) \<or> Deny q now ident a why = (q1, Inr r1)"
  then have "settled q1 ident r1"
    using Approve_settles Deny_settles by blast
  then have s: "settled (run q1 cs') ident r1"
    by (rule run_keeps_settled)
  from s show "lookupRecord (run q1 cs') ident = Some r1"
    by (simp add: settled_def)
  from s show "Approve (run q1 cs') t ident a' ttl' =
             (run q1 cs', Inl (refusal (run q1 cs') ident))"
    by (rule Approve_settled)
  from s show "Deny (run q1 cs') t ident a' why' =
             (run q1 cs', Inl (refusal (run q1 cs') ident))"
    by (rule Deny_settled)
qed

theorem decision_is_terminal_witness:
  "Deny pending_queue test_clock 1 ''bob'' ''unsafe'' = (denied_queue, Inr denied_record)
   \<and> Decision denied_record = Denied
   \<and> lookupRecord denied_queue 1 = Some denied_record
   \<and> Approve denied_queue (test_clock + minute) 1 ''ops'' 0 =
       (denied_queue, Inl (ErrAlreadyDecided 1))
   \<and> Deny denied_queue (test_clock + minute) 1 ''ops'' ''late'' =
       (denied_queue, Inl (ErrAlreadyDecided 1))
   \<and> Approve pending_queue test_clock 1 ''alice'' minute = (approved_queue, Inr approved_record)
   \<and> Decision approved_record = Approved
   \<and> Deny approved_queue (test_clock + minute) 1 ''ops'' ''late'' =
       (approved_queue, Inl (ErrAlreadyDecided 1))
   \<and> Approve approved_queue (test_clock + minute) 1 ''ops'' 0 =
       (approved_queue, Inl (ErrAlreadyDecided 1))
   \<and> length (filter (decides 1)
        (outcomes pending_queue
           [CallDeny test_clock 1 ''bob'' ''unsafe'', CallApprove test_clock 1 ''ops'' 0])) \<le> 1"
proof -
  have open_d: "refusal denied_queue 1 = ErrAlreadyDecided 1"
    by (simp add: refusal_def denied_queue_def pending_queue_eq Deny_def lookupRecord_def
        logAppend_def pending_record_def Let_def)
  have open_a: "refusal approved_queue 1 = ErrAlreadyDecided 1"
    by (simp add: refusal_def approved_queue_def pending_queue_eq Approve_def lookupRecord_def
        logAppend_def pending_record_def Let_def)
  note d = decision_is_terminal [where ident = 1 and q = pending_queue
      and cs = "[CallDeny test_clock 1 ''bob'' ''unsafe'', CallApprove test_clock 1 ''ops'' 0]"
      and now = test_clock and a = "''bob''" and why = "''unsafe''" and ttl = 0
      and ?q1.0 = denied_queue and ?r1.0 = denied_record]
  note a = decision_is_terminal [where ident = 1 and q = pending_queue and cs = "[]"
      and now = test_clock and a = "''alice''" and why = "''unsafe''" and ttl = minute
      and ?q1.0 = approved_queue and ?r1.0 = approved_record]
  from d Deny_pending have d1: "Decision denied_record = Denied"
    and d2: "\<forall>cs' t a' ttl' why'.
           lookupRecord (run denied_queue cs') 1 = Some denied_record
         \<and> Approve (run denied_queue cs') t 1 a' ttl' =
             (run denied_queue cs', Inl (refusal (run denied_queue cs') 1))
         \<and> Deny (run denied_queue cs') t 1 a' why' =
             (run denied_queue cs', Inl (refusal (run denied_queue cs') 1))"
    and d3: "length (filter (decides 1)
        (outcomes pending_queue
           [CallDeny test_clock 1 ''bob'' ''unsafe'', CallApprove test_clock 1 ''ops'' 0])) \<le> 1"
    by blast+
  from a Approve_pending have a1: "Decision approved_record = Approved"
    and a2: "\<forall>cs' t a' ttl' why'.
           lookupRecord (run approved_queue cs') 1 = Some approved_record
         \<and> Approve (run approved_queue cs') t 1 a' ttl' =
             (run approved_queue cs', Inl (refusal (run approved_queue cs') 1))
         \<and> Deny (run approved_queue cs') t 1 a' why' =
             (run approved_queue cs', Inl (refusal (run approved_queue cs') 1))"
    by blast+
  from d2 [rule_format, of "[]" "test_clock + minute" "''ops''" 0 "''late''"] open_d
  have d4: "lookupRecord denied_queue 1 = Some denied_record"
    and d5: "Approve denied_queue (test_clock + minute) 1 ''ops'' 0 =
       (denied_queue, Inl (ErrAlreadyDecided 1))"
    and d6: "Deny denied_queue (test_clock + minute) 1 ''ops'' ''late'' =
       (denied_queue, Inl (ErrAlreadyDecided 1))"
    by simp_all
  from a2 [rule_format, of "[]" "test_clock + minute" "''ops''" 0 "''late''"] open_a
  have a5: "Approve approved_queue (test_clock + minute) 1 ''ops'' 0 =
       (approved_queue, Inl (ErrAlreadyDecided 1))"
    and a6: "Deny approved_queue (test_clock + minute) 1 ''ops'' ''late'' =
       (approved_queue, Inl (ErrAlreadyDecided 1))"
    by simp_all
  from Deny_pending d1 d4 d5 d6 Approve_pending a1 a6 a5 d3
  show ?thesis by blast
qed

subsection \<open>The whitelist\<close>



lemma Request_fails_unchanged:
  "Request q now session tool ps = (q', Inl e) \<Longrightarrow> q' = q"
  by (auto simp: Request_def Let_def logAppend_def split: if_splits)












lemma wellFormed_NewQueue: "wellFormed (NewQueue px)"
  by (simp add: wellFormed_def NewQueue_def)








subsection \<open>Validation of a request\<close>

text \<open>
  C6. \<open>Request\<close> with an empty or blank (white space only) session or tool returns a
  validation error and the queue as it was: no record is created and nothing is written
  to the log.
\<close>

theorem Request_rejects_blank:
  "blank session \<or> blank tool \<longrightarrow>
     Request q now session tool ps =
       (q, Inl (if blank session then ErrSessionRequired else ErrCommandRequired))"
  by (simp add: Request_def)

theorem Request_rejects_blank_witness:
  "blank ''''
   \<and> Request pending_queue test_clock '''' ''ls'' None = (pending_queue, Inl ErrSessionRequired)
   \<and> blank ''   ''
   \<and> Request pending_queue test_clock ''sess'' ''   '' None =
       (pending_queue, Inl ErrCommandRequired)"
proof -
  note b = not_blank_examples
  from Request_rejects_blank [of "''''" "''ls''" pending_queue test_clock None] b
  have a: "Request pending_queue test_clock '''' ''ls'' None =
             (pending_queue, Inl ErrSessionRequired)"
    by simp
  from Request_rejects_blank [of "''sess''" "''   ''" pending_queue test_clock None] b
  have c: "Request pending_queue test_clock ''sess'' ''   '' None =
             (pending_queue, Inl ErrCommandRequired)"
    by simp
  from a c b show ?thesis by simp
qed

end
